theory Spec2Isabelle
  imports Main
begin

section \<open>The Mattermost bot of pkg/mattermost/mattermost.go\<close>

text \<open>
  The package talks to three collaborators that are not part of it: the Mattermost
  client library (\<open>model.Client4\<close>), the command executor (\<open>execute\<close>) and the logger.
  The model makes every call to them an entry of a trace, in the order the code issues
  them, and takes what they answer from a record of response functions. A Go panic
  (nil dereference, index out of range, failed type assertion) is a value of the
  result: \<open>Inl\<close> of the panic, with the trace of what was done before it.

  Go strings are byte sequences and \<open>len\<close> counts bytes: \<open>string\<close> (a list of
  8-bit characters) with \<open>length\<close>.
\<close>

subsection \<open>Constants\<close>

definition BotName :: string where
  "BotName = ''botkube''"

definition ChannelPurpose :: string where
  "ChannelPurpose = ''Botkube alerts''"

definition WebSocketProtocol :: string where
  "WebSocketProtocol = ''ws:''"

definition Logs :: string where
  "Logs = ''logs''"

text \<open>Two constants of the client library's \<open>model\<close> package, with the library's values.\<close>

definition WEBSOCKET_EVENT_POSTED :: string where
  "WEBSOCKET_EVENT_POSTED = ''posted''"

definition CHANNEL_OPEN :: string where
  "CHANNEL_OPEN = ''O''"

subsection \<open>Data\<close>

record Bot =
  ServerURL :: string
  Token :: string
  TeamName :: string
  ChannelName :: string
  ClusterName :: string
  AllowKubectl :: bool

text \<open>The records of the \<open>model\<close> package, with the fields the code reads or writes.\<close>

datatype AppError = AppError (err_Message: string) (err_StatusCode: int)

record Team =
  Team_Id :: string
  Team_Name :: string

record User =
  User_Id :: string
  User_Username :: string

record Channel =
  Channel_Id :: string
  Channel_Name :: string
  Channel_DisplayName :: string
  Channel_Purpose :: string
  Channel_Type :: string
  Channel_TeamId :: string

record UserAutocomplete =
  Users :: "User list"

record FileInfo =
  FileInfo_Id :: string

record FileUploadResponse =
  FileInfos :: "FileInfo list"

record Post =
  Post_Id :: string
  Post_UserId :: string
  Post_ChannelId :: string
  Post_RootId :: string
  Post_Message :: string
  Post_FileIds :: "string list"

text \<open>
  A value of Go's \<open>interface{}\<close>, as the payload map of an event holds them; a key that
  is absent from the map reads as the nil interface too.
\<close>

datatype iface = INil | IString string | INumber int | IBool bool

record WebSocketEvent =
  Event :: string
  Data :: "string \<rightharpoonup> iface"
  Broadcast_ChannelId :: string

text \<open>
  The package's global variables that the handler reads, set once by \<open>Start\<close> before the
  listener runs.
\<close>

record Session =
  botTeam :: Team
  botUser :: User
  botChannel :: Channel

text \<open>
  What the collaborators answer. A client call returns a pointer to its result and a
  response whose \<open>Error\<close> is nil on success: a pair of options, \<open>None\<close> for nil.
  \<open>PostFromJson\<close> returns a pointer that may be nil. Each function is called at most
  once while one event is handled or one bootstrap step runs. The elements of \<open>Users\<close>
  and of \<open>FileInfos\<close> and the event's \<open>Broadcast\<close> are pointers too; they are taken
  as not nil.
\<close>

record Server =
  GetOldClientConfig :: "string \<Rightarrow> AppError option"
  GetTeamByName :: "string \<Rightarrow> string \<Rightarrow> Team option \<times> AppError option"
  AutocompleteUsersInTeam ::
    "string \<Rightarrow> string \<Rightarrow> string \<Rightarrow> UserAutocomplete option \<times> AppError option"
  GetChannelByName :: "string \<Rightarrow> string \<Rightarrow> string \<Rightarrow> Channel option \<times> AppError option"
  CreateChannel :: "Channel \<Rightarrow> Channel option \<times> AppError option"
  AddChannelMember :: "string \<Rightarrow> string \<Rightarrow> AppError option"
  UploadFileAsRequestBody ::
    "string \<Rightarrow> string \<Rightarrow> string \<Rightarrow> FileUploadResponse option \<times> AppError option"
  CreatePost :: "Post \<Rightarrow> Post option \<times> AppError option"
  PostFromJson :: "string \<Rightarrow> Post option"
  Execute :: "string \<Rightarrow> bool \<Rightarrow> string \<Rightarrow> string \<Rightarrow> bool \<Rightarrow> string"

datatype call =
    Call_GetOldClientConfig string
  | Call_GetTeamByName string string
  | Call_AutocompleteUsersInTeam string string string
  | Call_GetChannelByName string string string
  | Call_CreateChannel Channel
  | Call_AddChannelMember string string
  | Call_UploadFileAsRequestBody string string string
  | Call_CreatePost Post
  | Call_Execute string bool string string bool
  | Log_Error string AppError
  | Log_Info string

datatype panic = NilDereference | IndexOutOfRange | TypeAssertion

type_synonym 'a run = "call list \<times> (panic + 'a)"

subsection \<open>strings.HasPrefix and strings.TrimPrefix\<close>

definition HasPrefix :: "string \<Rightarrow> string \<Rightarrow> bool" where
  "HasPrefix s prefix \<longleftrightarrow> length s \<ge> length prefix \<and> take (length prefix) s = prefix"

definition TrimPrefix :: "string \<Rightarrow> string \<Rightarrow> string" where
  "TrimPrefix s prefix = (if HasPrefix s prefix then drop (length prefix) s else s)"

subsection \<open>Bootstrap\<close>

definition mmChannel :: "string \<Rightarrow> string \<Rightarrow> Channel" where
  "mmChannel channelName teamID =
     \<lparr>Channel_Id = '''', Channel_Name = channelName, Channel_DisplayName = channelName,
      Channel_Purpose = ChannelPurpose, Channel_Type = CHANNEL_OPEN,
      Channel_TeamId = teamID\<rparr>"

definition checkServerConnection :: "Server \<Rightarrow> call list \<times> AppError option" where
  "checkServerConnection srv = ([Call_GetOldClientConfig ''''], GetOldClientConfig srv '''')"

definition getBotTeam :: "Server \<Rightarrow> string \<Rightarrow> call list \<times> (Team option \<times> AppError option)" where
  "getBotTeam srv teamName = ([Call_GetTeamByName teamName ''''], GetTeamByName srv teamName '''')"

text \<open>
  \<open>getBotUser\<close> returns \<open>Inr (Inl e)\<close> for \<open>(nil, e)\<close> and \<open>Inr (Inr u)\<close> for \<open>(u, nil)\<close>;
  \<open>users.Users[0]\<close> panics on a nil \<open>users\<close> and on an empty slice.
\<close>

definition getBotUser :: "Server \<Rightarrow> string \<Rightarrow> (AppError + User) run" where
  "getBotUser srv teamID =
     (let tr = [Call_AutocompleteUsersInTeam teamID BotName '''']
      in case AutocompleteUsersInTeam srv teamID BotName '''' of
           (_, Some e) \<Rightarrow> (tr, Inr (Inl e))
         | (None, None) \<Rightarrow> (tr, Inl NilDereference)
         | (Some users, None) \<Rightarrow>
             (case Users users of
                [] \<Rightarrow> (tr, Inl IndexOutOfRange)
              | u # _ \<Rightarrow> (tr, Inr (Inr u))))"

text \<open>
  The end of \<open>getBotChannel\<close>, reached with the channel that was found or created (the
  function's local \<open>botChannel\<close>, here \<open>channel\<close>): the log line, then the membership
  call on \<open>botChannel.Id\<close>, whose result is dropped. On a failed creation the code
  returns the error together with the channel pointer; \<open>Start\<close> reads the error only,
  and so does the model (\<open>Inr (Inl e)\<close>).
\<close>

definition addBotToChannel :: "Channel option \<Rightarrow> string \<Rightarrow> call list \<Rightarrow> (AppError + Channel) run" where
  "addBotToChannel channel botUserID tr =
     (let tr' = tr @ [Log_Info ''Channel created successfully in Mattermost'']
      in case channel of
           None \<Rightarrow> (tr', Inl NilDereference)
         | Some c \<Rightarrow> (tr' @ [Call_AddChannelMember (Channel_Id c) botUserID], Inr (Inr c)))"

definition getBotChannel :: "Server \<Rightarrow> string \<Rightarrow> string \<Rightarrow> string \<Rightarrow> (AppError + Channel) run" where
  "getBotChannel srv channelName botTeamID botUserID =
     (let tr = [Call_GetChannelByName channelName botTeamID '''']
      in case GetChannelByName srv channelName botTeamID '''' of
           (_, Some _) \<Rightarrow>
             (let tr1 = tr @ [Call_CreateChannel (mmChannel channelName botTeamID)]
              in case CreateChannel srv (mmChannel channelName botTeamID) of
                   (_, Some e) \<Rightarrow> (tr1, Inr (Inl e))
                 | (created, None) \<Rightarrow> addBotToChannel created botUserID tr1)
         | (found, None) \<Rightarrow> addBotToChannel found botUserID tr)"

text \<open>
  \<open>Start\<close> up to the point where the listener is opened (lines 69 to 99): \<open>Inr None\<close>
  when a step failed, was logged and \<open>Start\<close> returned; \<open>Inr (Some s)\<close> with the
  values of the three globals when all four steps passed.
\<close>

definition Start :: "Server \<Rightarrow> Bot \<Rightarrow> Session option run" where
  "Start srv b =
     (case checkServerConnection srv of
        (tr1, Some e) \<Rightarrow>
          (tr1 @ [Log_Error ''There was a problem pinging the Mattermost server. Error: '' e],
           Inr None)
      | (tr1, None) \<Rightarrow>
          (case getBotTeam srv (TeamName b) of
             (tr2, (_, Some e)) \<Rightarrow>
               (tr1 @ tr2 @ [Log_Error ''There was a problem finding Mattermost team. Error: '' e],
                Inr None)
           | (tr2, (None, None)) \<Rightarrow> (tr1 @ tr2, Inl NilDereference)
           | (tr2, (Some team, None)) \<Rightarrow>
               (case getBotUser srv (Team_Id team) of
                  (tr3, Inl p) \<Rightarrow> (tr1 @ tr2 @ tr3, Inl p)
                | (tr3, Inr (Inl e)) \<Rightarrow>
                    (tr1 @ tr2 @ tr3 @
                       [Log_Error ''There was a problem creating user in Mattermost. Error: '' e],
                     Inr None)
                | (tr3, Inr (Inr user)) \<Rightarrow>
                    (case getBotChannel srv (ChannelName b) (Team_Id team) (User_Id user) of
                       (tr4, Inl p) \<Rightarrow> (tr1 @ tr2 @ tr3 @ tr4, Inl p)
                     | (tr4, Inr (Inl e)) \<Rightarrow>
                         (tr1 @ tr2 @ tr3 @ tr4 @
                            [Log_Error ''There was a problem creating channel. Error: '' e],
                          Inr None)
                     | (tr4, Inr (Inr channel)) \<Rightarrow>
                         (tr1 @ tr2 @ tr3 @ tr4,
                          Inr (Some \<lparr>botTeam = team, botUser = user, botChannel = channel\<rparr>))))))"

subsection \<open>The responder\<close>

text \<open>Lines 204 to 207 of \<open>sendMessage\<close>: create the post, log a failure, return.\<close>

definition createPost :: "Server \<Rightarrow> Post \<Rightarrow> call list \<Rightarrow> unit run" where
  "createPost srv post tr =
     (case CreatePost srv post of
        (_, Some e) \<Rightarrow>
          (tr @ [Call_CreatePost post, Log_Error ''Failed to send message. Error: '' e], Inr ())
      | (_, None) \<Rightarrow> (tr @ [Call_CreatePost post], Inr ()))"

definition emptyPost :: Post where
  "emptyPost = \<lparr>Post_Id = '''', Post_UserId = '''', Post_ChannelId = '''', Post_RootId = '''',
                Post_Message = '''', Post_FileIds = []\<rparr>"

definition sendMessage :: "Server \<Rightarrow> string \<Rightarrow> string \<Rightarrow> string \<Rightarrow> unit run" where
  "sendMessage srv msg postID channelID =
     (let post = emptyPost\<lparr>Post_ChannelId := channelID, Post_RootId := postID\<rparr>
      in if length msg \<ge> 3990 then
           (let tr = [Call_UploadFileAsRequestBody msg channelID Logs]
            in case UploadFileAsRequestBody srv msg channelID Logs of (res, err) \<Rightarrow>
              (let tr1 = (case err of
                            Some e \<Rightarrow>
                              tr @ [Log_Error ''Error occured while uploading file. Error: '' e]
                          | None \<Rightarrow> tr)
               in case res of
                    None \<Rightarrow> (tr1, Inl NilDereference)
                  | Some r \<Rightarrow>
                      (case FileInfos r of
                         [] \<Rightarrow> (tr1, Inl IndexOutOfRange)
                       | fi # _ \<Rightarrow>
                           createPost srv (post\<lparr>Post_FileIds := [FileInfo_Id fi]\<rparr>) tr1)))
         else createPost srv (post\<lparr>Post_Message := msg\<rparr>) [])"

subsection \<open>The handler and the listener\<close>

definition handleMessage ::
  "Server \<Rightarrow> Session \<Rightarrow> WebSocketEvent \<Rightarrow> bool \<Rightarrow> string \<Rightarrow> string \<Rightarrow> unit run" where
  "handleMessage srv ses event allowkubectl clusterName channelName =
     (if Event event \<noteq> WEBSOCKET_EVENT_POSTED then ([], Inr ())
      else case Data event ''post'' of
             Some (IString s) \<Rightarrow>
               (case PostFromJson srv s of
                  None \<Rightarrow> ([], Inl NilDereference)
                | Some post \<Rightarrow>
                    if Post_UserId post = User_Id (botUser ses)
                       \<or> \<not> HasPrefix (Post_Message post) (''@'' @ BotName @ '' '')
                    then ([], Inr ())
                    else
                      (let inMessage = TrimPrefix (Post_Message post) (''@'' @ BotName @ '' '');
                           isAuthChannel =
                             (if Broadcast_ChannelId event = Channel_Id (botChannel ses)
                              then True else False);
                           outMessage =
                             Execute srv inMessage allowkubectl clusterName channelName isAuthChannel;
                           tr = [Call_Execute inMessage allowkubectl clusterName channelName
                                   isAuthChannel]
                       in if length outMessage = 0
                          then (tr @ [Log_Info ''Invalid request. Dumping the response''], Inr ())
                          else
                            (case sendMessage srv (''`'' @ outMessage @ ''`'') (Post_Id post)
                                    (Broadcast_ChannelId event) of
                               (tr', r) \<Rightarrow> (tr @ tr', r))))
           | _ \<Rightarrow> ([], Inl TypeAssertion))"

text \<open>
  The listener's loop (lines 105 to 112) over the events that arrive, in order. The
  goroutine has no \<open>recover\<close>: a panic in the handler ends the process, and the events
  behind it are never handled.
\<close>

fun listen ::
  "Server \<Rightarrow> Session \<Rightarrow> bool \<Rightarrow> string \<Rightarrow> string \<Rightarrow> WebSocketEvent list \<Rightarrow> unit run" where
  "listen srv ses allowkubectl clusterName channelName [] = ([], Inr ())"
| "listen srv ses allowkubectl clusterName channelName (event # events) =
     (case handleMessage srv ses event allowkubectl clusterName channelName of
        (tr, Inl p) \<Rightarrow> (tr, Inl p)
      | (tr, Inr _) \<Rightarrow>
          (case listen srv ses allowkubectl clusterName channelName events of
             (tr', r) \<Rightarrow> (tr @ tr', r)))"

subsection \<open>Reading a trace\<close>

fun is_Execute :: "call \<Rightarrow> bool" where
  "is_Execute (Call_Execute _ _ _ _ _) = True"
| "is_Execute _ = False"

fun is_Upload :: "call \<Rightarrow> bool" where
  "is_Upload (Call_UploadFileAsRequestBody _ _ _) = True"
| "is_Upload _ = False"

fun is_CreatePost :: "call \<Rightarrow> bool" where
  "is_CreatePost (Call_CreatePost _) = True"
| "is_CreatePost _ = False"

text \<open>
  \<open>sendMessage\<close> is the only place that uploads a file or creates a post, and every run
  of it starts with one of the two calls: the calls to \<open>sendMessage\<close> are counted by them.
\<close>

definition is_Send :: "call \<Rightarrow> bool" where
  "is_Send c \<longleftrightarrow> is_Upload c \<or> is_CreatePost c"

fun is_CreateChannel :: "call \<Rightarrow> bool" where
  "is_CreateChannel (Call_CreateChannel _) = True"
| "is_CreateChannel _ = False"


text \<open>
  The events that pass the handler's two guards (lines 162 and 168), with the post that
  the payload decodes to.
\<close>

definition accepted :: "Server \<Rightarrow> Session \<Rightarrow> WebSocketEvent \<Rightarrow> Post \<Rightarrow> bool" where
  "accepted srv ses event post \<longleftrightarrow>
     Event event = WEBSOCKET_EVENT_POSTED
     \<and> (case Data event ''post'' of
          Some (IString s) \<Rightarrow> PostFromJson srv s = Some post
        | _ \<Rightarrow> False)
     \<and> Post_UserId post \<noteq> User_Id (botUser ses)
     \<and> HasPrefix (Post_Message post) (''@'' @ BotName @ '' '')"

subsection \<open>A server to run the code on\<close>

definition connectionRefused :: AppError where
  "connectionRefused = AppError ''connection refused'' 0"

definition notFound :: AppError where
  "notFound = AppError ''resource not found'' 404"

definition demoSession :: Session where
  "demoSession =
     \<lparr>botTeam = \<lparr>Team_Id = ''t1'', Team_Name = ''ops''\<rparr>,
      botUser = \<lparr>User_Id = ''u0'', User_Username = ''botkube''\<rparr>,
      botChannel = (mmChannel ''alerts'' ''t1'')\<lparr>Channel_Id := ''c1''\<rparr>\<rparr>"

text \<open>
  A team \<open>ops\<close> with the bot's account and one channel \<open>alerts\<close>; every call succeeds,
  a channel that is looked up under another name is not found, an upload returns two
  file records. The payload of an event decodes to a post of the user \<open>author\<close> whose
  text is the payload itself (the empty payload does not decode), and the executor
  answers \<open>out\<close> to every command.
\<close>

definition demoServer :: "string \<Rightarrow> string \<Rightarrow> Server" where
  "demoServer author out =
     \<lparr>GetOldClientConfig = (\<lambda>_. None),
      GetTeamByName = (\<lambda>name _. (Some \<lparr>Team_Id = ''t1'', Team_Name = name\<rparr>, None)),
      AutocompleteUsersInTeam =
        (\<lambda>_ name _. (Some \<lparr>Users = [\<lparr>User_Id = ''u0'', User_Username = name\<rparr>]\<rparr>, None)),
      GetChannelByName =
        (\<lambda>name team _.
           if name = ''alerts'' then (Some ((mmChannel name team)\<lparr>Channel_Id := ''c1''\<rparr>), None)
           else (None, Some notFound)),
      CreateChannel = (\<lambda>c. (Some (c\<lparr>Channel_Id := ''c2''\<rparr>), None)),
      AddChannelMember = (\<lambda>_ _. None),
      UploadFileAsRequestBody =
        (\<lambda>_ _ _. (Some \<lparr>FileInfos = [\<lparr>FileInfo_Id = ''f1''\<rparr>, \<lparr>FileInfo_Id = ''f2''\<rparr>]\<rparr>, None)),
      CreatePost = (\<lambda>p. (Some (p\<lparr>Post_Id := ''p2''\<rparr>), None)),
      PostFromJson =
        (\<lambda>s. if s = [] then None
             else Some (emptyPost\<lparr>Post_Id := ''p1'', Post_UserId := author, Post_Message := s\<rparr>)),
      Execute = (\<lambda>_ _ _ _ _. out)\<rparr>"

definition demoBot :: "string \<Rightarrow> Bot" where
  "demoBot channelName =
     \<lparr>ServerURL = ''http://chat.example:8065'', Token = ''secret'', TeamName = ''ops'',
      ChannelName = channelName, ClusterName = ''dev'', AllowKubectl = True\<rparr>"

definition postedEvent :: "string \<Rightarrow> string \<Rightarrow> WebSocketEvent" where
  "postedEvent payload channelID =
     \<lparr>Event = WEBSOCKET_EVENT_POSTED, Data = [''post'' \<mapsto> IString payload],
      Broadcast_ChannelId = channelID\<rparr>"


definition uploadRefused :: Server where
  "uploadRefused =
     (demoServer ''u7'' (replicate 3988 CHR ''a''))
       \<lparr>UploadFileAsRequestBody := (\<lambda>_ _ _. (None, Some connectionRefused))\<rparr>"

definition noBotUser :: Server where
  "noBotUser =
     (demoServer ''u7'' ''ok'')\<lparr>AutocompleteUsersInTeam := (\<lambda>_ _ _. (Some \<lparr>Users = []\<rparr>, None))\<rparr>"

definition noPayload :: WebSocketEvent where
  "noPayload = \<lparr>Event = WEBSOCKET_EVENT_POSTED, Data = Map.empty, Broadcast_ChannelId = ''c1''\<rparr>"

section \<open>Properties\<close>

subsection \<open>The handler's two paths\<close>

lemma handleMessage_accepted:
  assumes "accepted srv ses ev p"
  shows "handleMessage srv ses ev a c ch =
     (let cmd = TrimPrefix (Post_Message p) (''@'' @ BotName @ '' '');
          auth = (Broadcast_ChannelId ev = Channel_Id (botChannel ses));
          out = Execute srv cmd a c ch auth;
          tr = [Call_Execute cmd a c ch auth]
      in if out = [] then (tr @ [Log_Info ''Invalid request. Dumping the response''], Inr ())
         else (case sendMessage srv (''`'' @ out @ ''`'') (Post_Id p) (Broadcast_ChannelId ev) of
                 (tr', r) \<Rightarrow> (tr @ tr', r)))"
  using assms
  by (auto simp: accepted_def handleMessage_def Let_def split: option.splits iface.splits)

lemma handleMessage_not_accepted:
  assumes "\<And>p. \<not> accepted srv ses ev p"
  shows "handleMessage srv ses ev a c ch = ([], Inr ())
       \<or> (\<exists>p. handleMessage srv ses ev a c ch = ([], Inl p))"
  using assms
  by (auto simp: accepted_def handleMessage_def Let_def split: option.splits iface.splits)

lemma sendMessage_no_Execute: "filter is_Execute (fst (sendMessage srv msg pid cid)) = []"
  by (auto simp: sendMessage_def createPost_def Let_def split: option.splits list.splits prod.splits)




lemma accepted_demo:
  "author \<noteq> ''u0'' \<Longrightarrow> accepted (demoServer author out) demoSession (postedEvent (''@botkube '' @ cmd) cid)
     (emptyPost\<lparr>Post_Id := ''p1'', Post_UserId := author, Post_Message := ''@botkube '' @ cmd\<rparr>)"
  by (simp add: accepted_def demoServer_def demoSession_def postedEvent_def BotName_def HasPrefix_def emptyPost_def)

lemma HasPrefix_append: "HasPrefix s prefix \<longleftrightarrow> (\<exists>rest. s = prefix @ rest)"
  by (metis HasPrefix_def append_eq_conv_conj append_take_drop_id length_append le_add1)

lemma TrimPrefix_append: "TrimPrefix (prefix @ rest) prefix = rest"
  by (simp add: TrimPrefix_def HasPrefix_def)

subsection \<open>The responder and the bootstrap steps\<close>

lemma createPost_returns: "snd (createPost srv post tr) = Inr ()"
  by (simp add: createPost_def split: option.splits prod.splits)

lemma sendMessage_small_returns:
  "length msg < 3990 \<Longrightarrow> snd (sendMessage srv msg pid cid) = Inr ()"
  by (simp add: sendMessage_def createPost_returns Let_def)

lemma getBotUser_lookup_error:
  "snd (AutocompleteUsersInTeam srv team BotName []) = Some e \<Longrightarrow>
     getBotUser srv team = ([Call_AutocompleteUsersInTeam team BotName []], Inr (Inl e))"
  by (cases "AutocompleteUsersInTeam srv team BotName []")
     (auto simp: getBotUser_def Let_def split: option.splits)

lemma Start_CreateChannel_calls:
  "filter is_CreateChannel (fst (Start srv b)) \<noteq> [] \<Longrightarrow>
     \<exists>team user. filter is_CreateChannel (fst (getBotChannel srv (ChannelName b) team user)) \<noteq> []"
  by (auto simp: Start_def checkServerConnection_def getBotTeam_def getBotUser_def Let_def
           split: option.splits prod.splits sum.splits list.splits)
     (metis fst_conv)+



lemma getBotChannel_lookup_failed:
  assumes "snd (GetChannelByName srv name team []) = Some e"
  shows "getBotChannel srv name team uid =
           (case CreateChannel srv (mmChannel name team) of
              (_, Some e') \<Rightarrow>
                ([Call_GetChannelByName name team [], Call_CreateChannel (mmChannel name team)],
                 Inr (Inl e'))
            | (created, None) \<Rightarrow>
                addBotToChannel created uid
                  [Call_GetChannelByName name team [], Call_CreateChannel (mmChannel name team)])"
  using assms
  by (cases "GetChannelByName srv name team []")
     (auto simp: getBotChannel_def split: option.splits prod.splits)


section \<open>The claims\<close>

subsection \<open>Failures of the upload and of the post\<close>

text \<open>
  Claim C1: a failure of the file upload or of the post creation is logged and swallowed,
  \<open>sendMessage\<close> returns normally and later events are handled; it does not crash when the
  upload fails and returns no file information.

  The code logs the upload's error and goes on to read \<open>res.FileInfos[0]\<close>. The client
  returns a nil result with an error: on a reply of 3990 bytes \<open>sendMessage\<close> logs, then
  panics on the nil \<open>res\<close>; no post is created, and the listener, which has no
  \<open>recover\<close>, handles no later event.
\<close>

theorem sendMessage_upload_failure_panics:
  "sendMessage uploadRefused (replicate 3990 CHR ''a'') ''p1'' ''c1'' =
     ([Call_UploadFileAsRequestBody (replicate 3990 CHR ''a'') ''c1'' ''logs'',
       Log_Error ''Error occured while uploading file. Error: '' connectionRefused],
      Inl NilDereference)
   \<and> listen uploadRefused demoSession True ''dev'' ''alerts''
        [postedEvent ''@botkube logs web'' ''c1'', postedEvent ''@botkube get pods'' ''c1''] =
     ([Call_Execute ''logs web'' True ''dev'' ''alerts'' True,
       Call_UploadFileAsRequestBody (''`'' @ replicate 3988 CHR ''a'' @ ''`'') ''c1'' ''logs'',
       Log_Error ''Error occured while uploading file. Error: '' connectionRefused],
      Inl NilDereference)"
  by (simp add: sendMessage_def uploadRefused_def demoServer_def Logs_def handleMessage_def
        postedEvent_def WEBSOCKET_EVENT_POSTED_def demoSession_def emptyPost_def BotName_def
        HasPrefix_def TrimPrefix_def)

subsection \<open>The bot's user\<close>

text \<open>
  Claim C2: the bot's user is searched by the fixed user name and the first match is
  taken; an empty result and a lookup error both abort the bootstrap with an error, and
  no account is created.

  On a search that succeeds with no match, \<open>getBotUser\<close> reads \<open>users.Users[0]\<close> of an
  empty slice: it panics with an index out of range, and so does \<open>Start\<close>, instead of
  logging an error and returning. (A lookup error is returned and logged:
  \<open>getBotUser_lookup_error\<close>.)
\<close>

theorem getBotUser_empty_result_panics:
  "getBotUser noBotUser ''t1'' =
     ([Call_AutocompleteUsersInTeam ''t1'' ''botkube'' []], Inl IndexOutOfRange)
   \<and> Start noBotUser (demoBot ''alerts'') =
     ([Call_GetOldClientConfig [], Call_GetTeamByName ''ops'' [],
       Call_AutocompleteUsersInTeam ''t1'' ''botkube'' []], Inl IndexOutOfRange)"
  by (simp add: getBotUser_def noBotUser_def demoServer_def BotName_def Start_def
        checkServerConnection_def getBotTeam_def demoBot_def)

subsection \<open>A malformed payload\<close>

text \<open>
  Claim C3: a new-post event whose payload field is missing, not a string or not a
  parseable post is logged and abandoned, and the listener goes on with later events.

  The code asserts \<open>event.Data["post"].(string)\<close> unchecked. On a posted event with no
  \<open>post\<close> field, and on one whose \<open>post\<close> field is a number, \<open>handleMessage\<close> panics
  before it logs anything; the listener handles no later event.
\<close>

theorem handleMessage_missing_payload_panics:
  "handleMessage (demoServer ''u7'' ''ok'') demoSession noPayload True ''dev'' ''alerts'' =
     ([], Inl TypeAssertion)
   \<and> handleMessage (demoServer ''u7'' ''ok'') demoSession
        (noPayload\<lparr>Data := [''post'' \<mapsto> INumber 7]\<rparr>) True ''dev'' ''alerts'' =
     ([], Inl TypeAssertion)
   \<and> listen (demoServer ''u7'' ''ok'') demoSession True ''dev'' ''alerts''
        [noPayload, postedEvent ''@botkube get pods'' ''c1''] = ([], Inl TypeAssertion)"
  by (simp add: handleMessage_def noPayload_def)

subsection \<open>Which events reach the executor\<close>

text \<open>
  Claim C4: \<open>handleMessage\<close> calls the executor, and then \<open>sendMessage\<close>, only if the
  event is a new post, the post's author is not the bot, and the text starts with the
  exact prefix \<open>@botkube\<close> followed by one space. An event that fails one of the three
  leads to no call of the executor and no call of \<open>sendMessage\<close>.
\<close>

theorem handleMessage_dispatch_guard:
  assumes "\<not> (Event ev = WEBSOCKET_EVENT_POSTED
              \<and> (\<exists>s p. Data ev ''post'' = Some (IString s) \<and> PostFromJson srv s = Some p
                     \<and> Post_UserId p \<noteq> User_Id (botUser ses)
                     \<and> HasPrefix (Post_Message p) ''@botkube ''))"
  shows "filter is_Execute (fst (handleMessage srv ses ev a c ch)) = []
       \<and> filter is_Send (fst (handleMessage srv ses ev a c ch)) = []"
proof -
  have "\<not> accepted srv ses ev p" for p
    using assms by (auto simp: accepted_def BotName_def split: option.splits iface.splits)
  then have "fst (handleMessage srv ses ev a c ch) = []"
    using handleMessage_not_accepted [of srv ses ev a c ch] by auto
  then show ?thesis by simp
qed

text \<open>
  Four events that fail a condition: a typing event, a post of the bot itself, a mention
  with a capital letter, a mention with no space behind it.
\<close>

theorem handleMessage_dispatch_guard_witness:
  "filter is_Execute (fst (handleMessage (demoServer ''u7'' ''ok'') demoSession
      ((postedEvent ''@botkube get pods'' ''c1'')\<lparr>Event := ''typing''\<rparr>) True ''dev'' ''alerts'')) = []
   \<and> filter is_Send (fst (handleMessage (demoServer ''u0'' ''ok'') demoSession
      (postedEvent ''@botkube get pods'' ''c1'') True ''dev'' ''alerts'')) = []
   \<and> filter is_Execute (fst (handleMessage (demoServer ''u7'' ''ok'') demoSession
      (postedEvent ''@Botkube get pods'' ''c1'') True ''dev'' ''alerts'')) = []
   \<and> filter is_Execute (fst (handleMessage (demoServer ''u7'' ''ok'') demoSession
      (postedEvent ''@botkube'' ''c1'') True ''dev'' ''alerts'')) = []"
  using
    handleMessage_dispatch_guard [of "(postedEvent ''@botkube get pods'' ''c1'')\<lparr>Event := ''typing''\<rparr>"
      "demoServer ''u7'' ''ok''" demoSession True "''dev''" "''alerts''"]
    handleMessage_dispatch_guard [of "postedEvent ''@botkube get pods'' ''c1''"
      "demoServer ''u0'' ''ok''" demoSession True "''dev''" "''alerts''"]
    handleMessage_dispatch_guard [of "postedEvent ''@Botkube get pods'' ''c1''"
      "demoServer ''u7'' ''ok''" demoSession True "''dev''" "''alerts''"]
    handleMessage_dispatch_guard [of "postedEvent ''@botkube'' ''c1''"
      "demoServer ''u7'' ''ok''" demoSession True "''dev''" "''alerts''"]
  by (simp add: postedEvent_def demoServer_def demoSession_def WEBSOCKET_EVENT_POSTED_def
        HasPrefix_def emptyPost_def)

text \<open>
  Claim C5: for an accepted post the command text passed to the executor is the message
  text with the leading \<open>@botkube\<close> and its space removed, and nothing else; for
  \<open>@botkube get pods\<close> it is \<open>get pods\<close>.
\<close>

theorem handleMessage_command_text:
  assumes "accepted srv ses ev p"
  shows "\<exists>cmd. Post_Message p = ''@botkube '' @ cmd
           \<and> (\<exists>auth. filter is_Execute (fst (handleMessage srv ses ev a c ch))
                        = [Call_Execute cmd a c ch auth])"
proof -
  from assms have "HasPrefix (Post_Message p) (''@'' @ BotName @ '' '')"
    by (simp add: accepted_def)
  then obtain cmd where m: "Post_Message p = (''@'' @ BotName @ '' '') @ cmd"
    using HasPrefix_append by blast
  have t: "TrimPrefix (Post_Message p) (''@'' @ BotName @ '' '') = cmd"
    unfolding m by (rule TrimPrefix_append)
  have "filter is_Execute (fst (handleMessage srv ses ev a c ch)) =
          [Call_Execute cmd a c ch (Broadcast_ChannelId ev = Channel_Id (botChannel ses))]"
    unfolding handleMessage_accepted [OF assms] t Let_def
    by (simp add: sendMessage_no_Execute case_prod_beta)
  with m show ?thesis by (auto simp: BotName_def)
qed

theorem handleMessage_command_text_witness:
  "\<exists>auth. filter is_Execute (fst (handleMessage (demoServer ''u7'' ''ok'') demoSession
      (postedEvent ''@botkube get pods'' ''c1'') True ''dev'' ''alerts''))
   = [Call_Execute ''get pods'' True ''dev'' ''alerts'' auth]"
  using handleMessage_command_text [OF accepted_demo [of "''u7''" "''ok''" "''get pods''" "''c1''"],
          of True "''dev''" "''alerts''"]
  by (auto simp: emptyPost_def)

text \<open>
  Claim C6: for an accepted event the authorization flag passed to the executor is true
  exactly when the event's broadcast channel is the channel resolved at bootstrap. The
  handler only passes the flag on: the executor is called once whatever its value.
\<close>

theorem handleMessage_auth_flag:
  assumes "accepted srv ses ev p"
  shows "filter is_Execute (fst (handleMessage srv ses ev a c ch)) =
           [Call_Execute (TrimPrefix (Post_Message p) ''@botkube '') a c ch
              (Broadcast_ChannelId ev = Channel_Id (botChannel ses))]"
  unfolding handleMessage_accepted [OF assms] Let_def
  by (simp add: sendMessage_no_Execute case_prod_beta BotName_def)

text \<open>The same post in the bot's channel \<open>c1\<close> and in another channel \<open>c9\<close>.\<close>

theorem handleMessage_auth_flag_witness:
  "filter is_Execute (fst (handleMessage (demoServer ''u7'' ''ok'') demoSession
      (postedEvent ''@botkube get pods'' ''c1'') False ''dev'' ''alerts''))
     = [Call_Execute ''get pods'' False ''dev'' ''alerts'' True]
   \<and> filter is_Execute (fst (handleMessage (demoServer ''u7'' ''ok'') demoSession
      (postedEvent ''@botkube get pods'' ''c9'') False ''dev'' ''alerts''))
     = [Call_Execute ''get pods'' False ''dev'' ''alerts'' False]"
  using handleMessage_auth_flag [OF accepted_demo [of "''u7''" "''ok''" "''get pods''" "''c1''"],
          of False "''dev''" "''alerts''"]
        handleMessage_auth_flag [OF accepted_demo [of "''u7''" "''ok''" "''get pods''" "''c9''"],
          of False "''dev''" "''alerts''"]
  by (simp add: emptyPost_def TrimPrefix_def HasPrefix_def demoSession_def postedEvent_def)

subsection \<open>The reply\<close>



text \<open>
  Claim C9: when the executor returns the empty string for an accepted event, the handler
  logs, drops the event and never calls \<open>sendMessage\<close>.
\<close>

theorem handleMessage_empty_result:
  assumes "accepted srv ses ev p"
    and "Execute srv (TrimPrefix (Post_Message p) ''@botkube '') a c ch
           (Broadcast_ChannelId ev = Channel_Id (botChannel ses)) = []"
  shows "handleMessage srv ses ev a c ch =
           ([Call_Execute (TrimPrefix (Post_Message p) ''@botkube '') a c ch
               (Broadcast_ChannelId ev = Channel_Id (botChannel ses)),
             Log_Info ''Invalid request. Dumping the response''], Inr ())
       \<and> filter is_Send (fst (handleMessage srv ses ev a c ch)) = []"
  using assms(2) unfolding handleMessage_accepted [OF assms(1)] Let_def
  by (simp add: BotName_def is_Send_def)

theorem handleMessage_empty_result_witness:
  "handleMessage (demoServer ''u7'' []) demoSession
      (postedEvent ''@botkube get pods'' ''c1'') True ''dev'' ''alerts'' =
     ([Call_Execute ''get pods'' True ''dev'' ''alerts'' True,
       Log_Info ''Invalid request. Dumping the response''], Inr ())
   \<and> filter is_Send (fst (handleMessage (demoServer ''u7'' []) demoSession
      (postedEvent ''@botkube get pods'' ''c1'') True ''dev'' ''alerts'')) = []"
proof -
  have acc: "accepted (demoServer ''u7'' []) demoSession (postedEvent (''@botkube '' @ ''get pods'') ''c1'')
     (emptyPost\<lparr>Post_Id := ''p1'', Post_UserId := ''u7'', Post_Message := ''@botkube '' @ ''get pods''\<rparr>)"
    by (rule accepted_demo) simp
  have ex: "Execute (demoServer ''u7'' []) x a c ch f = []" for x a c ch f
    by (simp add: demoServer_def)
  show ?thesis
    using handleMessage_empty_result [OF acc ex, of True "''dev''" "''alerts''"]
    by (simp add: emptyPost_def TrimPrefix_def HasPrefix_def demoSession_def postedEvent_def
          is_Send_def)
qed

subsection \<open>The bot's channel\<close>




text \<open>
  Claim C10: every failure of the channel lookup, of any kind, leads to a create call:
  the code reads only whether the error is nil, so the run is the same as for a channel
  that was not found.
\<close>

theorem getBotChannel_any_lookup_error_creates:
  assumes "snd (GetChannelByName srv name team []) = Some e"
  shows "take 2 (fst (getBotChannel srv name team uid)) =
           [Call_GetChannelByName name team [], Call_CreateChannel (mmChannel name team)]
       \<and> getBotChannel srv name team uid =
           getBotChannel (srv\<lparr>GetChannelByName := (\<lambda>_ _ _. (None, Some notFound))\<rparr>) name team uid"
proof
  show "take 2 (fst (getBotChannel srv name team uid)) =
           [Call_GetChannelByName name team [], Call_CreateChannel (mmChannel name team)]"
    unfolding getBotChannel_lookup_failed [OF assms]
    by (auto simp: addBotToChannel_def Let_def split: option.splits prod.splits)
  have "snd (GetChannelByName (srv\<lparr>GetChannelByName := (\<lambda>_ _ _. (None, Some notFound))\<rparr>)
               name team []) = Some notFound"
    by simp
  from getBotChannel_lookup_failed [OF this]
  show "getBotChannel srv name team uid =
           getBotChannel (srv\<lparr>GetChannelByName := (\<lambda>_ _ _. (None, Some notFound))\<rparr>) name team uid"
    unfolding getBotChannel_lookup_failed [OF assms] by simp
qed

text \<open>A channel that is not found (404), and a lookup that could not connect.\<close>

theorem getBotChannel_any_lookup_error_creates_witness:
  "take 2 (fst (getBotChannel (demoServer ''u7'' ''ok'') ''ops-room'' ''t1'' ''u0'')) =
     [Call_GetChannelByName ''ops-room'' ''t1'' [], Call_CreateChannel (mmChannel ''ops-room'' ''t1'')]
   \<and> take 2 (fst (getBotChannel
        ((demoServer ''u7'' ''ok'')\<lparr>GetChannelByName := (\<lambda>_ _ _. (None, Some connectionRefused))\<rparr>)
        ''alerts'' ''t1'' ''u0'')) =
     [Call_GetChannelByName ''alerts'' ''t1'' [], Call_CreateChannel (mmChannel ''alerts'' ''t1'')]"
proof -
  have a: "snd (GetChannelByName (demoServer ''u7'' ''ok'') ''ops-room'' ''t1'' []) = Some notFound"
    by (simp add: demoServer_def)
  have b: "snd (GetChannelByName
             ((demoServer ''u7'' ''ok'')\<lparr>GetChannelByName := (\<lambda>_ _ _. (None, Some connectionRefused))\<rparr>)
             ''alerts'' ''t1'' []) = Some connectionRefused"
    by simp
  show ?thesis
    using getBotChannel_any_lookup_error_creates [OF a, of "''u0''", THEN conjunct1]
      getBotChannel_any_lookup_error_creates [OF b, of "''u0''", THEN conjunct1]
    by (rule conjI)
qed

end
